theory Spec2Isabelle
  imports Main "HOL-Library.Log_Nat"
begin

section \<open>Cells built by the TypeScript wrappers\<close>

text \<open>
  The wrappers (\<^verbatim>\<open>wrappers/DeployEscrow.ts\<close>, \<^verbatim>\<open>wrappers/DeployReputation.ts\<close>) build
  cells with the builder of \<^verbatim>\<open>@ton/core\<close>. A cell is modelled as the list of the fields
  stored into it, in order. An address is an opaque value; \<open>None\<close> is the empty address
  (\<^verbatim>\<open>null\<close> or \<^verbatim>\<open>undefined\<close> given to \<^verbatim>\<open>storeAddress\<close>). A JavaScript \<^verbatim>\<open>number\<close> or
  \<^verbatim>\<open>bigint\<close> is an \<open>int\<close>: only integral inputs are modelled.
\<close>

type_synonym address = nat

datatype cell_item =
    UintItem nat int
  | DictItem
  | AddressItem "address option"
  | CoinsItem int

type_synonym cell = "cell_item list"

text \<open>
  What a wrapper call can throw: the \<^verbatim>\<open>Error('Rating must be between 1 and 5')\<close> of
  \<^verbatim>\<open>sendSubmitRating\<close>, the range error of the builder when a value does not fit the
  field, and the errors of the stack reader.
\<close>

datatype wrapper_error =
    RatingError
  | BitLengthError
  | InvalidAddress
  | StackTypeError

definition andThen :: "'e + 'a \<Rightarrow> ('a \<Rightarrow> 'e + 'b) \<Rightarrow> 'e + 'b" where
  "andThen r f = (case r of Inl e \<Rightarrow> Inl e | Inr x \<Rightarrow> f x)"

definition beginCell :: cell where
  "beginCell = []"

text \<open>
  \<^verbatim>\<open>storeUint(value, bits)\<close> writes \<open>value\<close> as an unsigned integer of \<open>bits\<close> bits and
  throws when \<open>value\<close> is negative or needs more bits. No wrapper of the repository
  stores more than the 1023 bits a cell holds, so the capacity check never fires and is
  left out.
\<close>

definition storeUint :: "int \<Rightarrow> nat \<Rightarrow> cell \<Rightarrow> wrapper_error + cell" where
  "storeUint v bits b =
     (if 0 \<le> v \<and> v < 2 ^ bits then Inr (b @ [UintItem bits v]) else Inl BitLengthError)"

definition storeDict_null :: "cell \<Rightarrow> wrapper_error + cell" where
  "storeDict_null b = Inr (b @ [DictItem])"

definition storeAddress :: "address option \<Rightarrow> cell \<Rightarrow> wrapper_error + cell" where
  "storeAddress a b = Inr (b @ [AddressItem a])"

text \<open>\<^verbatim>\<open>storeCoins\<close> writes a variable-length unsigned integer of at most 15 bytes.\<close>

definition storeCoins :: "int \<Rightarrow> cell \<Rightarrow> wrapper_error + cell" where
  "storeCoins v b =
     (if 0 \<le> v \<and> v < 2 ^ 120 then Inr (b @ [CoinsItem v]) else Inl BitLengthError)"

subsection \<open>Messages sent through the provider\<close>

text \<open>
  \<^verbatim>\<open>provider.internal(via, {value, sendMode, body})\<close> sends one message. The provider is
  the list of the messages sent so far. A send method returns the provider after the
  call and what it threw, if anything.
\<close>

record internal_message =
  msg_via :: address
  msg_coins :: int
  msg_sendMode :: nat
  msg_body :: cell

type_synonym provider = "internal_message list"

definition PAY_GAS_SEPARATELY :: nat where
  "PAY_GAS_SEPARATELY = 1"

definition internal :: "provider \<Rightarrow> address \<Rightarrow> int \<Rightarrow> cell \<Rightarrow> provider" where
  "internal p via coins body =
     p @ [\<lparr>msg_via = via, msg_coins = coins, msg_sendMode = PAY_GAS_SEPARATELY, msg_body = body\<rparr>]"

definition send_body ::
  "provider \<Rightarrow> address \<Rightarrow> int \<Rightarrow> wrapper_error + cell \<Rightarrow> provider \<times> wrapper_error option" where
  "send_body p via coins body =
     (case body of Inl e \<Rightarrow> (p, Some e) | Inr c \<Rightarrow> (internal p via coins c, None))"

section \<open>The reputation wrapper\<close>

record ReputationConfig =
  rep_owner :: "address option"
  rep_id :: "int option"
  rep_counter :: "int option"

text \<open>
  JavaScript's \<^verbatim>\<open>a || b\<close> on optional numbers: \<open>a\<close> when it is truthy (defined and not
  0), else \<open>b\<close>.
\<close>

definition truthy :: "int option \<Rightarrow> bool" where
  "truthy x = (case x of None \<Rightarrow> False | Some n \<Rightarrow> n \<noteq> 0)"

definition js_or :: "int option \<Rightarrow> int option \<Rightarrow> int option" where
  "js_or a b = (if truthy a then a else b)"

definition number_of :: "int option \<Rightarrow> int" where
  "number_of x = (case x of None \<Rightarrow> 0 | Some n \<Rightarrow> n)"

text \<open>
  \<^verbatim>\<open>config.counter || config.id || 0\<close>: the last operand is the number 0, so the value is
  always a number.
\<close>

definition reputationConfigToCell :: "ReputationConfig \<Rightarrow> wrapper_error + cell" where
  "reputationConfigToCell config =
     (if rep_id config \<noteq> None \<or> rep_counter config \<noteq> None then
        storeUint (number_of (js_or (js_or (rep_counter config) (rep_id config)) (Some 0))) 64
          beginCell
      else
        andThen (storeUint 0 64 beginCell) (\<lambda>b.
        andThen (storeDict_null b) (\<lambda>b.
        andThen (storeDict_null b) (\<lambda>b.
        andThen (storeDict_null b) (\<lambda>b.
        storeAddress (rep_owner config) b)))))"

definition Opcodes_submit_rating :: int where
  "Opcodes_submit_rating = 0x9e6f2a84"

definition submitRatingBody :: "int \<Rightarrow> address \<Rightarrow> int \<Rightarrow> wrapper_error + cell" where
  "submitRatingBody jobId targetUser rating =
     andThen (storeUint Opcodes_submit_rating 32 beginCell) (\<lambda>b.
     andThen (storeUint 0 64 b) (\<lambda>b.
     andThen (storeUint jobId 64 b) (\<lambda>b.
     andThen (storeAddress (Some targetUser) b) (\<lambda>b.
     storeUint rating 8 b))))"

definition sendSubmitRating ::
  "provider \<Rightarrow> address \<Rightarrow> int \<Rightarrow> int \<Rightarrow> address \<Rightarrow> int \<Rightarrow> provider \<times> wrapper_error option" where
  "sendSubmitRating p via coins jobId targetUser rating =
     (if rating < 1 \<or> rating > 5 then (p, Some RatingError)
      else send_body p via coins (submitRatingBody jobId targetUser rating))"

section \<open>The escrow wrapper\<close>

record EscrowConfig =
  owner :: address
  feeBps :: int

definition escrowConfigToCell :: "EscrowConfig \<Rightarrow> wrapper_error + cell" where
  "escrowConfigToCell config =
     andThen (storeUint 0 64 beginCell) (\<lambda>b.
     andThen (storeDict_null b) (\<lambda>b.
     andThen (storeAddress (Some (owner config)) b) (\<lambda>b.
     storeUint (feeBps config) 16 b)))"

text \<open>The persisted fee: the 16-bit field that ends the configuration cell.\<close>

definition persisted_fee :: "cell \<Rightarrow> int option" where
  "persisted_fee c = (case rev c of UintItem bits v # rest \<Rightarrow> Some v | _ \<Rightarrow> None)"

subsection \<open>Opcodes, state codes and send methods\<close>

definition Opcodes_create_escrow :: int where
  "Opcodes_create_escrow = 0x8f4a33db"

definition Opcodes_fund :: int where
  "Opcodes_fund = 0x2fcb26a8"

definition Opcodes_lock :: int where
  "Opcodes_lock = 0x5de7c0ab"

definition Opcodes_confirm :: int where
  "Opcodes_confirm = 0x6a8d4f12"

definition Opcodes_release :: int where
  "Opcodes_release = 0x3c9f8b2e"

definition Opcodes_dispute :: int where
  "Opcodes_dispute = 0x7b3e5c91"

definition Opcodes_resolve :: int where
  "Opcodes_resolve = 0x4f2a9d63"

text \<open>The object \<^verbatim>\<open>EscrowState\<close>: the state names the wrapper knows, with their codes.\<close>

definition EscrowState :: "(string \<times> int) list" where
  "EscrowState =
     [(''created'', 0), (''funded'', 1), (''locked'', 2), (''completed'', 3), (''disputed'', 4)]"

definition sendCreateEscrow ::
  "provider \<Rightarrow> address \<Rightarrow> int \<Rightarrow> int \<Rightarrow> address \<Rightarrow> address \<Rightarrow> int \<Rightarrow>
   provider \<times> wrapper_error option" where
  "sendCreateEscrow p via coins job emp wrk amt =
     send_body p via coins
       (andThen (storeUint Opcodes_create_escrow 32 beginCell) (\<lambda>b.
        andThen (storeUint 0 64 b) (\<lambda>b.
        andThen (storeUint job 64 b) (\<lambda>b.
        andThen (storeAddress (Some emp) b) (\<lambda>b.
        andThen (storeAddress (Some wrk) b) (\<lambda>b.
        storeCoins amt b))))))"

definition sendFund ::
  "provider \<Rightarrow> address \<Rightarrow> int \<Rightarrow> int \<Rightarrow> provider \<times> wrapper_error option" where
  "sendFund p via coins eid =
     send_body p via coins
       (andThen (storeUint Opcodes_fund 32 beginCell) (\<lambda>b.
        andThen (storeUint 0 64 b) (\<lambda>b.
        storeUint eid 64 b)))"

definition sendLock ::
  "provider \<Rightarrow> address \<Rightarrow> int \<Rightarrow> int \<Rightarrow> provider \<times> wrapper_error option" where
  "sendLock p via coins eid =
     send_body p via coins
       (andThen (storeUint Opcodes_lock 32 beginCell) (\<lambda>b.
        andThen (storeUint 0 64 b) (\<lambda>b.
        storeUint eid 64 b)))"

definition sendConfirm ::
  "provider \<Rightarrow> address \<Rightarrow> int \<Rightarrow> int \<Rightarrow> provider \<times> wrapper_error option" where
  "sendConfirm p via coins eid =
     send_body p via coins
       (andThen (storeUint Opcodes_confirm 32 beginCell) (\<lambda>b.
        andThen (storeUint 0 64 b) (\<lambda>b.
        storeUint eid 64 b)))"

definition sendDispute ::
  "provider \<Rightarrow> address \<Rightarrow> int \<Rightarrow> int \<Rightarrow> provider \<times> wrapper_error option" where
  "sendDispute p via coins eid =
     send_body p via coins
       (andThen (storeUint Opcodes_dispute 32 beginCell) (\<lambda>b.
        andThen (storeUint 0 64 b) (\<lambda>b.
        storeUint eid 64 b)))"

subsection \<open>Reading an escrow: \<^verbatim>\<open>getEscrow\<close>\<close>

text \<open>
  A JavaScript \<^verbatim>\<open>number\<close> that \<^verbatim>\<open>Number(bigint)\<close> can return: an integer that a double
  holds exactly, or an infinity.
\<close>

datatype js_number = Finite int | PlusInfinity | MinusInfinity

text \<open>
  The double nearest to a natural number \<open>m\<close>: \<open>m\<close> itself below \<open>2^53\<close>; above, \<open>m\<close>
  rounded to its 53 leading bits, a tie going to the even significand.
\<close>

definition round53 :: "int \<Rightarrow> int" where
  "round53 m =
     (if m < 2 ^ 53 then m
      else
        let k = nat (bitlen m - 53);
            q = m div 2 ^ k;
            r = m mod 2 ^ k;
            h = 2 ^ (k - 1)
        in (if h < r \<or> (r = h \<and> odd q) then q + 1 else q) * 2 ^ k)"

text \<open>
  \<^verbatim>\<open>Number(n)\<close> for a \<^verbatim>\<open>bigint\<close>: the nearest double, with the sign of \<open>n\<close>; a magnitude
  that rounds to \<open>2^1024\<close> or more is an infinity.
\<close>

definition Number :: "int \<Rightarrow> js_number" where
  "Number n =
     (let v = round53 \<bar>n\<bar>
      in if 2 ^ 1024 \<le> v then (if n < 0 then MinusInfinity else PlusInfinity)
         else Finite (if n < 0 then - v else v))"

text \<open>
  \<^verbatim>\<open>provider.get('get_escrow', ...)\<close> returns a stack, read front to back by the
  \<^verbatim>\<open>TupleReader\<close> of \<^verbatim>\<open>@ton/core\<close>. An entry is an integer, a slice holding an address
  (\<open>None\<close> for the empty address) or null. \<^verbatim>\<open>readBigNumber\<close> wants an integer and
  returns it as it is; \<^verbatim>\<open>readNumber\<close> is \<^verbatim>\<open>Number(readBigNumber())\<close>, which rounds above
  \<open>2^53\<close>; \<^verbatim>\<open>readBoolean\<close> is \<^verbatim>\<open>readNumber\<close> compared with 0; \<^verbatim>\<open>readAddress\<close> wants a
  slice with an address in it. The stack itself comes from the contract, which is not
  among the sources: it is the argument of \<open>getEscrow\<close>.
\<close>

datatype tuple_item =
    TInt int
  | TSlice "address option"
  | TNull

type_synonym tuple_reader = "tuple_item list"

definition readBigNumber :: "tuple_reader \<Rightarrow> wrapper_error + (int \<times> tuple_reader)" where
  "readBigNumber st = (case st of TInt n # rest \<Rightarrow> Inr (n, rest) | _ \<Rightarrow> Inl StackTypeError)"

definition readNumber :: "tuple_reader \<Rightarrow> wrapper_error + (js_number \<times> tuple_reader)" where
  "readNumber st = andThen (readBigNumber st) (\<lambda>(n, rest). Inr (Number n, rest))"

definition readBoolean :: "tuple_reader \<Rightarrow> wrapper_error + (bool \<times> tuple_reader)" where
  "readBoolean st = andThen (readNumber st) (\<lambda>(res, rest). Inr (res \<noteq> Finite 0, rest))"

definition readAddress :: "tuple_reader \<Rightarrow> wrapper_error + (address \<times> tuple_reader)" where
  "readAddress st =
     (case st of
        TSlice (Some a) # rest \<Rightarrow> Inr (a, rest)
      | TSlice None # rest \<Rightarrow> Inl InvalidAddress
      | _ \<Rightarrow> Inl StackTypeError)"

text \<open>The object \<^verbatim>\<open>getEscrow\<close> returns: these seven fields and no other.\<close>

record escrow_view =
  view_jobId :: int
  view_employer :: address
  view_worker :: address
  view_amount :: int
  view_state :: js_number
  view_employerConfirmed :: bool
  view_workerConfirmed :: bool

definition getEscrow :: "tuple_reader \<Rightarrow> wrapper_error + escrow_view" where
  "getEscrow stack =
     andThen (readBigNumber stack) (\<lambda>(j, st).
     andThen (readAddress st) (\<lambda>(e, st).
     andThen (readAddress st) (\<lambda>(w, st).
     andThen (readBigNumber st) (\<lambda>(a, st).
     andThen (readNumber st) (\<lambda>(s, st).
     andThen (readBoolean st) (\<lambda>(ec, st).
     andThen (readBoolean st) (\<lambda>(wc, st).
     Inr \<lparr>view_jobId = j, view_employer = e, view_worker = w, view_amount = a,
          view_state = s, view_employerConfirmed = ec, view_workerConfirmed = wc\<rparr>)))))))"

section \<open>The escrow contract\<close>

text \<open>
  The contract \<^verbatim>\<open>escrow.fc\<close>, which receives the messages the wrapper sends, is not among
  the sources: only its wrapper, its tests and its documentation (\<^verbatim>\<open>SMART_CONTRACTS.md\<close>)
  are. Its data and its operations are modelled from the specification, section by
  section.
\<close>

text \<open>
  Modelled from the spec: the states of a record of \<^verbatim>\<open>escrow.fc\<close> (section 3; the same six
  as in ``Escrow States'' of \<^verbatim>\<open>SMART_CONTRACTS.md\<close>).
\<close>

datatype escrow_state = Created | Funded | Locked | Completed | Disputed | Refunded

text \<open>
  Modelled from the spec: the error kinds of \<^verbatim>\<open>escrow.fc\<close> (section 7), and
  \<open>AlreadyExists\<close> of the store (section 4.1).
\<close>

datatype escrow_error =
    Unauthorized
  | NotFound
  | InvalidState
  | InsufficientFunds
  | AlreadyReleased
  | DisputeTimeout
  | AlreadyExists

text \<open>
  Modelled from the spec: the record \<^verbatim>\<open>escrow.fc\<close> stores per escrow id (section 3; the
  same fields as in ``Escrow Data Structure'' of \<^verbatim>\<open>SMART_CONTRACTS.md\<close>). The worker
  may be unset until the lock; a timestamp other than \<open>createdAt\<close> is unset until its
  operation.
\<close>

record EscrowRecord =
  escrowId :: nat
  jobId :: nat
  employer :: address
  worker :: "address option"
  amount :: nat
  state :: escrow_state
  employerConfirmed :: bool
  workerConfirmed :: bool
  createdAt :: nat
  lockedAt :: "nat option"
  completedAt :: "nat option"
  disputeRaisedAt :: "nat option"

text \<open>An outbound transfer: the recipient and the amount.\<close>

type_synonym transfer = "address \<times> nat"

text \<open>
  Modelled from the spec: the persistent state of \<^verbatim>\<open>escrow.fc\<close> (sections 4.1 and 6): the
  records by id, the count of records created, the administrator and the fee in basis
  points.
\<close>

record contract_state =
  escrows :: "nat \<Rightarrow> EscrowRecord option"
  escrowCount :: nat
  adminAddress :: address
  feeBasisPoints :: nat

text \<open>
  The seven entries \<^verbatim>\<open>getEscrow\<close> reads, for a stored record: the job id, the two parties,
  the amount, the code of the state and the two flags (true is \<open>-1\<close> on the TON stack).
  The code of a state is the contract's and is a parameter. Whatever else the contract
  returns follows these entries.
\<close>

definition stack_of_record :: "(escrow_state \<Rightarrow> int) \<Rightarrow> EscrowRecord \<Rightarrow> tuple_reader" where
  "stack_of_record enc r =
     [TInt (int (jobId r)), TSlice (Some (employer r)), TSlice (worker r),
      TInt (int (amount r)), TInt (enc (state r)),
      TInt (if employerConfirmed r then - 1 else 0),
      TInt (if workerConfirmed r then - 1 else 0)]"

subsection \<open>AuthorizationGuard\<close>

text \<open>Modelled from the spec: the operations the guard of \<^verbatim>\<open>escrow.fc\<close> tells apart.\<close>

datatype op_kind = FundOp | LockOp | ConfirmOp | RaiseDisputeOp | ResolveOp

text \<open>
  Modelled from the spec: the authorization rules of \<^verbatim>\<open>escrow.fc\<close> (section 4.4).
  \<open>fund\<close> needs the employer; \<open>lock\<close> needs a sender who is not the employer, with
  the worker unset or equal to the sender; \<open>confirm\<close> and \<open>raiseDispute\<close> need the
  employer or the worker; \<open>resolve\<close> needs the administrator.
\<close>

fun authorize :: "op_kind \<Rightarrow> address \<Rightarrow> EscrowRecord \<Rightarrow> address \<Rightarrow> escrow_error + unit" where
  "authorize FundOp s r admin = (if s = employer r then Inr () else Inl Unauthorized)"
| "authorize LockOp s r admin =
     (if s \<noteq> employer r \<and> (worker r = None \<or> worker r = Some s) then Inr ()
      else Inl Unauthorized)"
| "authorize ConfirmOp s r admin =
     (if s = employer r \<or> worker r = Some s then Inr () else Inl Unauthorized)"
| "authorize RaiseDisputeOp s r admin =
     (if s = employer r \<or> worker r = Some s then Inr () else Inl Unauthorized)"
| "authorize ResolveOp s r admin = (if s = admin then Inr () else Inl Unauthorized)"

subsection \<open>FundLedger\<close>

text \<open>
  Modelled from the spec: the fee of \<^verbatim>\<open>escrow.fc\<close> (section 4.3, and ``Calculate fee'' in
  \<^verbatim>\<open>SMART_CONTRACTS.md\<close>): \<open>floor (amount * feeBasisPoints / 10000)\<close>. Amounts are
  natural numbers without a bound, so the product cannot overflow; the subtraction of
  the fee from the amount stops at 0, which is why a fee above the amount must be
  excluded before the payout is computed.
\<close>

definition computeFee :: "nat \<Rightarrow> nat \<Rightarrow> nat" where
  "computeFee amt bps = amt * bps div 10000"

text \<open>
  Modelled from the spec: the release of \<^verbatim>\<open>escrow.fc\<close> (section 4.3): the payout
  \<open>amount - fee\<close> goes to the worker and the fee to the administrator; a fee above 10000
  basis points is rejected (section 7 files it under \<open>InsufficientFunds\<close>). The spec
  names no error for a release without a worker; \<open>InvalidState\<close> stands for it.
\<close>

definition releaseTransfers :: "address \<Rightarrow> nat \<Rightarrow> EscrowRecord \<Rightarrow> escrow_error + transfer list" where
  "releaseTransfers admin bps r =
     (if 10000 < bps then Inl InsufficientFunds
      else case worker r of
        None \<Rightarrow> Inl InvalidState
      | Some w \<Rightarrow>
          Inr [(w, amount r - computeFee (amount r) bps), (admin, computeFee (amount r) bps)])"

text \<open>
  Modelled from the spec: the refund of \<^verbatim>\<open>escrow.fc\<close> (section 4.3): the full amount goes
  back to the employer and no fee is charged.
\<close>

definition refundTransfers :: "EscrowRecord \<Rightarrow> transfer list" where
  "refundTransfers r = [(employer r, amount r)]"

subsection \<open>StateMachine: the operations on one record\<close>

text \<open>
  Every operation first passes the authorization guard, then the state machine checks
  the transition (section 2); a state from which the operation is not legal is
  \<open>InvalidState\<close> (section 7). An operation returns the new record and the transfers it
  issues, or the error. \<open>AlreadyReleased\<close> and \<open>DisputeTimeout\<close> are never returned: the
  first overlaps \<open>InvalidState\<close> in section 7, the second is reserved.
\<close>

text \<open>
  Modelled from the spec: \<open>fund\<close> of \<^verbatim>\<open>escrow.fc\<close> (sections 4.2 and 3): from \<open>Created\<close>,
  by the employer, with an amount above 0 and at least that amount paid. The spec names
  no error for an amount of 0; \<open>InvalidState\<close> stands for it.
\<close>

definition fund ::
  "address \<Rightarrow> address \<Rightarrow> nat \<Rightarrow> EscrowRecord \<Rightarrow> escrow_error + (EscrowRecord \<times> transfer list)" where
  "fund admin s paid r =
     andThen (authorize FundOp s r admin) (\<lambda>_.
       if state r \<noteq> Created then Inl InvalidState
       else if amount r = 0 then Inl InvalidState
       else if paid < amount r then Inl InsufficientFunds
       else Inr (r\<lparr>state := Funded\<rparr>, []))"

text \<open>
  Modelled from the spec: \<open>lock\<close> of \<^verbatim>\<open>escrow.fc\<close> (section 4.2): from \<open>Funded\<close>; the
  sender becomes the worker and \<open>lockedAt\<close> is set.
\<close>

definition lock ::
  "address \<Rightarrow> address \<Rightarrow> nat \<Rightarrow> EscrowRecord \<Rightarrow> escrow_error + (EscrowRecord \<times> transfer list)" where
  "lock admin s now r =
     andThen (authorize LockOp s r admin) (\<lambda>_.
       if state r \<noteq> Funded then Inl InvalidState
       else Inr (r\<lparr>worker := Some s, state := Locked, lockedAt := Some now\<rparr>, []))"

text \<open>
  Modelled from the spec: \<open>confirm\<close> of \<^verbatim>\<open>escrow.fc\<close> (sections 4.2 and 4.3, and
  \<^verbatim>\<open>OP_CONFIRM_COMPLETION\<close> in \<^verbatim>\<open>SMART_CONTRACTS.md\<close>): in \<open>Locked\<close>, the flag of the sender
  is set; when both flags are set the funds are released and the record is \<open>Completed\<close>,
  in the same operation.
\<close>

definition confirm ::
  "address \<Rightarrow> nat \<Rightarrow> address \<Rightarrow> nat \<Rightarrow> EscrowRecord \<Rightarrow> escrow_error + (EscrowRecord \<times> transfer list)" where
  "confirm admin bps s now r =
     andThen (authorize ConfirmOp s r admin) (\<lambda>_.
       if state r \<noteq> Locked then Inl InvalidState
       else
         let r1 = (if s = employer r then r\<lparr>employerConfirmed := True\<rparr>
                   else r\<lparr>workerConfirmed := True\<rparr>)
         in if employerConfirmed r1 \<and> workerConfirmed r1 then
              andThen (releaseTransfers admin bps r1) (\<lambda>ts.
                Inr (r1\<lparr>state := Completed, completedAt := Some now\<rparr>, ts))
            else Inr (r1, []))"

text \<open>
  Modelled from the spec: \<open>raiseDispute\<close> of \<^verbatim>\<open>escrow.fc\<close> (section 4.2, with the policy of
  section 9: from \<open>Locked\<close> only).
\<close>

definition raiseDispute ::
  "address \<Rightarrow> address \<Rightarrow> nat \<Rightarrow> EscrowRecord \<Rightarrow> escrow_error + (EscrowRecord \<times> transfer list)" where
  "raiseDispute admin s now r =
     andThen (authorize RaiseDisputeOp s r admin) (\<lambda>_.
       if state r \<noteq> Locked then Inl InvalidState
       else Inr (r\<lparr>state := Disputed, disputeRaisedAt := Some now\<rparr>, []))"

text \<open>
  Modelled from the spec: \<open>resolve\<close> of \<^verbatim>\<open>escrow.fc\<close> (section 4.5, and
  \<^verbatim>\<open>OP_RESOLVE_DISPUTE\<close> in \<^verbatim>\<open>SMART_CONTRACTS.md\<close>): by the administrator, from
  \<open>Disputed\<close>; the funds go to the worker (less the fee) or back to the employer, the
  state becomes \<open>Completed\<close> or \<open>Refunded\<close>, and \<open>completedAt\<close> is set.
\<close>

definition resolve ::
  "address \<Rightarrow> nat \<Rightarrow> address \<Rightarrow> nat \<Rightarrow> bool \<Rightarrow> EscrowRecord \<Rightarrow>
   escrow_error + (EscrowRecord \<times> transfer list)" where
  "resolve admin bps s now releaseToWorker r =
     andThen (authorize ResolveOp s r admin) (\<lambda>_.
       if state r \<noteq> Disputed then Inl InvalidState
       else if releaseToWorker then
         andThen (releaseTransfers admin bps r) (\<lambda>ts.
           Inr (r\<lparr>state := Completed, completedAt := Some now\<rparr>, ts))
       else Inr (r\<lparr>state := Refunded, completedAt := Some now\<rparr>, refundTransfers r))"

subsection \<open>EscrowStore and the inbound messages\<close>

text \<open>
  Modelled from the spec: the operations of \<^verbatim>\<open>escrow.fc\<close> with their payloads (section
  6). \<open>CreateEscrow\<close> carries the id, the job id, the employer, the worker (if any) and the
  amount; the others carry the id, and \<open>Resolve\<close> the flag \<open>releaseToWorker\<close>.
\<close>

datatype operation =
    CreateEscrow nat nat address "address option" nat
  | Fund nat
  | Lock nat
  | Confirm nat
  | RaiseDispute nat
  | Resolve nat bool

text \<open>
  Modelled from the spec: an inbound message of \<^verbatim>\<open>escrow.fc\<close>: who sent it, the value paid
  with it, the time of the host, the operation.
\<close>

record inbound =
  in_sender :: address
  in_paid :: nat
  in_time :: nat
  in_op :: operation

text \<open>
  Modelled from the spec: \<open>createEscrow\<close> of \<^verbatim>\<open>escrow.fc\<close> (sections 4.1 and 6): the id must
  be unused; the record starts in \<open>Created\<close> with both flags false, and the count of
  records created goes up by one.
\<close>

definition createEscrow ::
  "contract_state \<Rightarrow> nat \<Rightarrow> nat \<Rightarrow> nat \<Rightarrow> address \<Rightarrow> address option \<Rightarrow> nat \<Rightarrow>
   escrow_error + (contract_state \<times> transfer list)" where
  "createEscrow c now i j e w a =
     (case escrows c i of
        Some r \<Rightarrow> Inl AlreadyExists
      | None \<Rightarrow>
          Inr (c\<lparr>escrows := (escrows c)(i \<mapsto>
                   \<lparr>escrowId = i, jobId = j, employer = e, worker = w, amount = a,
                    state = Created, employerConfirmed = False, workerConfirmed = False,
                    createdAt = now, lockedAt = None, completedAt = None,
                    disputeRaisedAt = None\<rparr>),
                 escrowCount := Suc (escrowCount c)\<rparr>, []))"

text \<open>
  Modelled from the spec: the store of \<^verbatim>\<open>escrow.fc\<close> (section 4.1): an operation on an
  unknown id is \<open>NotFound\<close>; the record an operation returns overwrites the stored one.
\<close>

definition on_record ::
  "contract_state \<Rightarrow> nat \<Rightarrow> (EscrowRecord \<Rightarrow> escrow_error + (EscrowRecord \<times> transfer list)) \<Rightarrow>
   escrow_error + (contract_state \<times> transfer list)" where
  "on_record c i f =
     (case escrows c i of
        None \<Rightarrow> Inl NotFound
      | Some r \<Rightarrow>
          andThen (f r) (\<lambda>(r', ts). Inr (c\<lparr>escrows := (escrows c)(i \<mapsto> r')\<rparr>, ts)))"

text \<open>
  Modelled from the spec: the dispatch of \<^verbatim>\<open>escrow.fc\<close> on the operation of an inbound
  message (section 6).
\<close>

definition handle :: "contract_state \<Rightarrow> inbound \<Rightarrow> escrow_error + (contract_state \<times> transfer list)" where
  "handle c m =
     (case in_op m of
        CreateEscrow i j e w a \<Rightarrow> createEscrow c (in_time m) i j e w a
      | Fund i \<Rightarrow> on_record c i (fund (adminAddress c) (in_sender m) (in_paid m))
      | Lock i \<Rightarrow> on_record c i (lock (adminAddress c) (in_sender m) (in_time m))
      | Confirm i \<Rightarrow>
          on_record c i (confirm (adminAddress c) (feeBasisPoints c) (in_sender m) (in_time m))
      | RaiseDispute i \<Rightarrow> on_record c i (raiseDispute (adminAddress c) (in_sender m) (in_time m))
      | Resolve i b \<Rightarrow>
          on_record c i (resolve (adminAddress c) (feeBasisPoints c) (in_sender m) (in_time m) b))"

text \<open>
  Modelled from the spec: the host that runs \<^verbatim>\<open>escrow.fc\<close> (sections 1 and 4.2): it either
  commits the state an operation returns, with its transfers, or keeps the old state and
  sends nothing, and reports the error.
\<close>

definition receive ::
  "contract_state \<Rightarrow> inbound \<Rightarrow> contract_state \<times> transfer list \<times> escrow_error option" where
  "receive c m =
     (case handle c m of Inl e \<Rightarrow> (c, [], Some e) | Inr (c', ts) \<Rightarrow> (c', ts, None))"

text \<open>
  Modelled from the spec: a sequence of messages to \<^verbatim>\<open>escrow.fc\<close>, each handled in turn
  (section 5: one at a time, to completion): the final state and all the transfers
  issued, or the first error.
\<close>

fun run :: "contract_state \<Rightarrow> inbound list \<Rightarrow> escrow_error + (contract_state \<times> transfer list)" where
  "run c [] = Inr (c, [])"
| "run c (m # ms) =
     andThen (handle c m) (\<lambda>(c', ts).
     andThen (run c' ms) (\<lambda>(c'', ts'). Inr (c'', ts @ ts')))"

text \<open>Modelled from the spec: the read-only query \<open>getRecord\<close> of \<^verbatim>\<open>escrow.fc\<close> (section 6).\<close>

definition getRecord :: "contract_state \<Rightarrow> nat \<Rightarrow> EscrowRecord option" where
  "getRecord c i = escrows c i"

subsection \<open>Documented state codes and example data\<close>


text \<open>
  The data of the concrete scenarios: an administrator 1 with a fee of 250 basis points,
  an employer 10, a worker 20 and an amount of 100 000 000 000 units.
\<close>

definition example_contract :: contract_state where
  "example_contract =
     \<lparr>escrows = (\<lambda>i. None), escrowCount = 0, adminAddress = 1, feeBasisPoints = 250\<rparr>"

definition example_record :: "escrow_state \<Rightarrow> bool \<Rightarrow> bool \<Rightarrow> nat option \<Rightarrow> EscrowRecord" where
  "example_record st ec wc locked =
     \<lparr>escrowId = 1, jobId = 7, employer = 10, worker = Some 20, amount = 100000000000,
      state = st, employerConfirmed = ec, workerConfirmed = wc,
      createdAt = 3, lockedAt = locked, completedAt = None, disputeRaisedAt = None\<rparr>"

definition example_store :: "EscrowRecord \<Rightarrow> contract_state" where
  "example_store r =
     example_contract\<lparr>escrows := (escrows example_contract)(1 \<mapsto> r), escrowCount := 1\<rparr>"

section \<open>Properties of the wrappers\<close>


lemma storeUint_ok:
  "0 \<le> v \<Longrightarrow> v < 2 ^ bits \<Longrightarrow> storeUint v bits b = Inr (b @ [UintItem bits v])"
  by (simp add: storeUint_def)

lemma storeUint_fails:
  "v < 0 \<or> 2 ^ bits \<le> v \<Longrightarrow> storeUint v bits b = Inl BitLengthError"
  by (auto simp: storeUint_def)

text \<open>
  C9. \<^verbatim>\<open>sendSubmitRating\<close> throws for a rating below 1 or above 5 and sends nothing; for
  a rating from 1 to 5 (and a job id that is a 64-bit unsigned value) it sends exactly one
  message, whose body is the 32-bit opcode \<open>0x9e6f2a84\<close>, a 64-bit zero query id, the
  64-bit job id, the address of the target user and the 8-bit rating.
\<close>

theorem sendSubmitRating_range_and_body:
  "(rating < 1 \<or> 5 < rating \<longrightarrow>
      sendSubmitRating p via coins jid targetUser rating = (p, Some RatingError))
   \<and> (1 \<le> rating \<and> rating \<le> 5 \<and> 0 \<le> jid \<and> jid < 2 ^ 64 \<longrightarrow>
      sendSubmitRating p via coins jid targetUser rating =
        (p @ [\<lparr>msg_via = via, msg_coins = coins, msg_sendMode = PAY_GAS_SEPARATELY,
               msg_body = [UintItem 32 0x9e6f2a84, UintItem 64 0, UintItem 64 jid,
                           AddressItem (Some targetUser), UintItem 8 rating]\<rparr>], None))"
proof (intro conjI impI)
  assume "rating < 1 \<or> 5 < rating"
  then show "sendSubmitRating p via coins jid targetUser rating = (p, Some RatingError)"
    by (auto simp: sendSubmitRating_def)
next
  assume h: "1 \<le> rating \<and> rating \<le> 5 \<and> 0 \<le> jid \<and> jid < 2 ^ 64"
  then have r8: "0 \<le> rating" "rating < 2 ^ 8"
    by auto
  have body: "submitRatingBody jid targetUser rating =
      Inr [UintItem 32 0x9e6f2a84, UintItem 64 0, UintItem 64 jid,
           AddressItem (Some targetUser), UintItem 8 rating]"
    using h r8
    by (simp add: submitRatingBody_def andThen_def storeUint_def storeAddress_def
        beginCell_def Opcodes_submit_rating_def)
  show "sendSubmitRating p via coins jid targetUser rating =
        (p @ [\<lparr>msg_via = via, msg_coins = coins, msg_sendMode = PAY_GAS_SEPARATELY,
               msg_body = [UintItem 32 0x9e6f2a84, UintItem 64 0, UintItem 64 jid,
                           AddressItem (Some targetUser), UintItem 8 rating]\<rparr>], None)"
    using h by (simp add: sendSubmitRating_def body send_body_def internal_def)
qed

theorem sendSubmitRating_witness:
  "sendSubmitRating [] 7 50000000 1 9 0 = ([], Some RatingError)
   \<and> sendSubmitRating [] 7 50000000 1 9 6 = ([], Some RatingError)
   \<and> sendSubmitRating [] 7 50000000 1 9 5 =
        ([\<lparr>msg_via = 7, msg_coins = 50000000, msg_sendMode = PAY_GAS_SEPARATELY,
           msg_body = [UintItem 32 0x9e6f2a84, UintItem 64 0, UintItem 64 1,
                       AddressItem (Some 9), UintItem 8 5]\<rparr>], None)"
  using sendSubmitRating_range_and_body [of 0 "[]" 7 50000000 1 9]
    sendSubmitRating_range_and_body [of 6 "[]" 7 50000000 1 9]
    sendSubmitRating_range_and_body [of 5 "[]" 7 50000000 1 9]
  by simp

text \<open>
  A job id outside the 64-bit range makes the builder throw while the body is built: no
  message is sent then either.
\<close>

lemma sendSubmitRating_jobId_out_of_range:
  "1 \<le> rating \<Longrightarrow> rating \<le> 5 \<Longrightarrow> jid < 0 \<or> 2 ^ 64 \<le> jid \<Longrightarrow>
   sendSubmitRating p via coins jid targetUser rating = (p, Some BitLengthError)"
  by (auto simp: sendSubmitRating_def submitRatingBody_def andThen_def storeUint_def
      storeAddress_def beginCell_def Opcodes_submit_rating_def send_body_def)

text \<open>
  C10. With \<open>counter\<close> 0 or undefined and \<open>id\<close> defined (a 64-bit unsigned value), the
  cell of \<^verbatim>\<open>reputationConfigToCell\<close> stores \<open>id\<close> as its 64-bit counter: the counter falls
  back to \<open>id\<close>, so \<open>{counter: 0, id: n}\<close> with \<open>n\<close> not 0 starts at \<open>n\<close>, not at 0.
\<close>

theorem reputationConfigToCell_counter_falls_back_to_id:
  "rep_counter config = None \<or> rep_counter config = Some 0 \<Longrightarrow>
   rep_id config = Some n \<Longrightarrow> 0 \<le> n \<Longrightarrow> n < 2 ^ 64 \<Longrightarrow>
   reputationConfigToCell config = Inr [UintItem 64 n]"
  by (auto simp: reputationConfigToCell_def js_or_def truthy_def number_of_def
      storeUint_def beginCell_def)

theorem reputationConfigToCell_witness:
  "reputationConfigToCell \<lparr>rep_owner = None, rep_id = Some 7, rep_counter = Some 0\<rparr> =
     Inr [UintItem 64 7]
   \<and> reputationConfigToCell \<lparr>rep_owner = None, rep_id = Some 7, rep_counter = None\<rparr> =
     Inr [UintItem 64 7]"
  using reputationConfigToCell_counter_falls_back_to_id
      [of "\<lparr>rep_owner = None, rep_id = Some 7, rep_counter = Some 0\<rparr>" 7]
    reputationConfigToCell_counter_falls_back_to_id
      [of "\<lparr>rep_owner = None, rep_id = Some 7, rep_counter = None\<rparr>" 7]
  by simp

text \<open>A counter that is not 0 wins over the id.\<close>

lemma reputationConfigToCell_counter_wins:
  "rep_counter config = Some k \<Longrightarrow> 0 < k \<Longrightarrow> k < 2 ^ 64 \<Longrightarrow>
   reputationConfigToCell config = Inr [UintItem 64 k]"
  by (auto simp: reputationConfigToCell_def js_or_def truthy_def number_of_def
      storeUint_def beginCell_def)

text \<open>
  C7, as the code has it. \<^verbatim>\<open>escrowConfigToCell\<close> does not compare the fee with 10000. It
  stores \<open>feeBps\<close> in a 16-bit field: every fee from 0 to 65535 is persisted as given, and
  only a fee below 0 or above 65535 makes the construction fail.
\<close>

theorem escrowConfigToCell_fee_16_bits:
  "(0 \<le> feeBps config \<and> feeBps config < 65536 \<longrightarrow>
      escrowConfigToCell config =
        Inr [UintItem 64 0, DictItem, AddressItem (Some (owner config)),
             UintItem 16 (feeBps config)]
      \<and> andThen (escrowConfigToCell config) (\<lambda>c. Inr (persisted_fee c)) =
          Inr (Some (feeBps config)))
   \<and> (feeBps config < 0 \<or> 65535 < feeBps config \<longrightarrow>
      escrowConfigToCell config = Inl BitLengthError)"
  by (auto simp: escrowConfigToCell_def andThen_def storeUint_def storeDict_null_def
      storeAddress_def beginCell_def persisted_fee_def)

theorem escrowConfigToCell_fee_witness:
  "escrowConfigToCell \<lparr>owner = 1, feeBps = 250\<rparr> =
     Inr [UintItem 64 0, DictItem, AddressItem (Some 1), UintItem 16 250]
   \<and> escrowConfigToCell \<lparr>owner = 1, feeBps = 65536\<rparr> = Inl BitLengthError"
  using escrowConfigToCell_fee_16_bits [of "\<lparr>owner = 1, feeBps = 250\<rparr>"]
    escrowConfigToCell_fee_16_bits [of "\<lparr>owner = 1, feeBps = 65536\<rparr>"]
  by simp

text \<open>
  The claim as stated fails: a fee of 10001 basis points is stored, not rejected.
\<close>

theorem escrowConfigToCell_stores_fee_above_10000:
  "escrowConfigToCell \<lparr>owner = 1, feeBps = 10001\<rparr> =
     Inr [UintItem 64 0, DictItem, AddressItem (Some 1), UintItem 16 10001]
   \<and> persisted_fee [UintItem 64 0, DictItem, AddressItem (Some 1), UintItem 16 10001] =
       Some 10001"
  by (simp add: escrowConfigToCell_def andThen_def storeUint_def storeDict_null_def
      storeAddress_def beginCell_def persisted_fee_def)

section \<open>Properties of the escrow wrapper\<close>

text \<open>
  The object \<^verbatim>\<open>EscrowState\<close> names five states, with the codes 0 to 4; it has no entry
  \<open>refunded\<close>. No method of the wrapper reads it.
\<close>

lemma EscrowState_names_five_states:
  "map fst EscrowState = [''created'', ''funded'', ''locked'', ''completed'', ''disputed'']
   \<and> map snd EscrowState = [0, 1, 2, 3, 4]
   \<and> map_of EscrowState ''refunded'' = None"
  by (simp add: EscrowState_def)

text \<open>
  \<^verbatim>\<open>Number\<close> is exact below \<open>2^53\<close>, is 0 only for 0, and rounds above: \<open>2^53 + 1\<close> becomes
  \<open>2^53\<close> and \<open>2^53 + 3\<close> becomes \<open>2^53 + 4\<close>.
\<close>

lemma round53_exact: "m < 2 ^ 53 \<Longrightarrow> round53 m = m"
  by (simp add: round53_def)

lemma Number_exact: "\<bar>n\<bar> < 2 ^ 53 \<Longrightarrow> Number n = Finite n"
  by (auto simp: Number_def round53_def Let_def)

lemma round53_pos:
  assumes "0 < m"
  shows "0 < round53 m"
proof (cases "m < 2 ^ 53")
  case True
  with assms show ?thesis by (simp add: round53_def)
next
  case False
  let ?k = "nat (bitlen m - 53)"
  have lower: "2 ^ nat (bitlen m - 1) \<le> m"
    using bitlen_bounds [OF assms] by simp
  have "(2::int) ^ ?k \<le> 2 ^ nat (bitlen m - 1)"
    by (rule power_increasing) auto
  from this lower have "2 ^ ?k \<le> m"
    by (rule order_trans)
  then have "(2::int) ^ ?k div 2 ^ ?k \<le> m div 2 ^ ?k"
    by (rule zdiv_mono1) simp
  then have q: "1 \<le> m div 2 ^ ?k"
    by simp
  then have "0 < m div 2 ^ ?k * 2 ^ ?k" and "0 < (m div 2 ^ ?k + 1) * 2 ^ ?k"
    by (simp_all add: zero_less_mult_iff)
  with False show ?thesis
    by (simp add: round53_def Let_def)
qed

lemma Number_eq_zero_iff: "Number n = Finite 0 \<longleftrightarrow> n = 0"
proof
  assume h: "Number n = Finite 0"
  show "n = 0"
  proof (rule ccontr)
    assume "n \<noteq> 0"
    then have "0 < round53 \<bar>n\<bar>" by (intro round53_pos) simp
    with h show False
      by (auto simp: Number_def Let_def split: if_splits)
  qed
next
  assume "n = 0"
  then show "Number n = Finite 0" by (simp add: Number_exact)
qed

lemma bitlen_example: "bitlen 9007199254740993 = 54"
  by code_simp

lemma Number_rounds: "Number 9007199254740993 = Finite 9007199254740992"
  by (simp add: Number_def round53_def Let_def bitlen_example)

lemma Number_rounds_up: "Number 9007199254740995 = Finite 9007199254740996"
  by code_simp

text \<open>
  \<^verbatim>\<open>getEscrow\<close> reads seven entries in order and drops what follows. The state comes
  back as \<^verbatim>\<open>Number\<close> makes it; a flag is true when its entry is not 0.
\<close>

lemma getEscrow_reads_seven_entries:
  "getEscrow (TInt j # TSlice (Some e) # TSlice (Some w) # TInt a # TInt s # TInt ec # TInt wc
              # rest) =
     Inr \<lparr>view_jobId = j, view_employer = e, view_worker = w, view_amount = a,
          view_state = Number s, view_employerConfirmed = (ec \<noteq> 0),
          view_workerConfirmed = (wc \<noteq> 0)\<rparr>"
  by (simp add: getEscrow_def andThen_def readBigNumber_def readNumber_def readBoolean_def
      readAddress_def Number_eq_zero_iff)



text \<open>
  An escrow whose worker is still unset cannot be read at all: \<^verbatim>\<open>readAddress\<close> throws on
  the empty address.
\<close>

lemma getEscrow_worker_unset:
  "worker r = None \<Longrightarrow> getEscrow (stack_of_record enc r @ rest) = Inl InvalidAddress"
  by (simp add: getEscrow_def stack_of_record_def andThen_def readBigNumber_def
      readAddress_def)

text \<open>
  The wrapper has an opcode \<open>release\<close>, but none of its send methods puts it in a body:
  each sends its own opcode, a zero query id and the escrow id.
\<close>

lemma escrow_send_bodies:
  assumes "0 \<le> eid" and "eid < 2 ^ 64"
  shows "sendFund p via coins eid =
           (internal p via coins [UintItem 32 Opcodes_fund, UintItem 64 0, UintItem 64 eid], None)"
    and "sendLock p via coins eid =
           (internal p via coins [UintItem 32 Opcodes_lock, UintItem 64 0, UintItem 64 eid], None)"
    and "sendConfirm p via coins eid =
           (internal p via coins [UintItem 32 Opcodes_confirm, UintItem 64 0, UintItem 64 eid], None)"
    and "sendDispute p via coins eid =
           (internal p via coins [UintItem 32 Opcodes_dispute, UintItem 64 0, UintItem 64 eid], None)"
  using assms
  by (simp_all add: sendFund_def sendLock_def sendConfirm_def sendDispute_def send_body_def
      andThen_def storeUint_def beginCell_def Opcodes_fund_def Opcodes_lock_def
      Opcodes_confirm_def Opcodes_dispute_def)

lemma release_opcode_never_sent:
  "Opcodes_release \<notin>
     {Opcodes_create_escrow, Opcodes_fund, Opcodes_lock, Opcodes_confirm, Opcodes_dispute}"
  by (simp add: Opcodes_release_def Opcodes_create_escrow_def Opcodes_fund_def
      Opcodes_lock_def Opcodes_confirm_def Opcodes_dispute_def)

section \<open>Properties of the escrow contract\<close>

lemma computeFee_le: "bps \<le> 10000 \<Longrightarrow> computeFee a bps \<le> a"
proof -
  assume "bps \<le> 10000"
  then have "a * bps \<le> a * 10000"
    by simp
  then have "a * bps div 10000 \<le> a * 10000 div 10000"
    by (rule div_le_mono)
  then show ?thesis
    by (simp add: computeFee_def)
qed

text \<open>
  C1. From a state where the id is unused, the sequence create, fund by the employer,
  lock by the worker, confirm by the employer, confirm by the worker succeeds and ends
  with the record \<open>Completed\<close>; its only transfers are the payout \<open>amount - fee\<close> to the
  worker and the fee to the administrator, with \<open>fee = floor (amount * feeBasisPoints /
  10000)\<close> and \<open>payout + fee = amount\<close>. (The fee is at most 10000 basis points, the
  amount is above 0 and paid in full, and the worker is not the employer.)
\<close>

theorem mutual_confirmation_pays_amount_less_fee:
  assumes fresh: "escrows c i = None" and pos: "0 < a" and paid: "a \<le> pf"
    and ne: "w \<noteq> e" and wk: "wk = None \<or> wk = Some w"
    and bps: "feeBasisPoints c \<le> 10000"
  shows "run c [\<lparr>in_sender = creator, in_paid = pc, in_time = tcr,
                  in_op = CreateEscrow i j e wk a\<rparr>,
                \<lparr>in_sender = e, in_paid = pf, in_time = tfu, in_op = Fund i\<rparr>,
                \<lparr>in_sender = w, in_paid = pl, in_time = tlk, in_op = Lock i\<rparr>,
                \<lparr>in_sender = e, in_paid = pe, in_time = tem, in_op = Confirm i\<rparr>,
                \<lparr>in_sender = w, in_paid = pw, in_time = twk, in_op = Confirm i\<rparr>]
         = Inr (c\<lparr>escrows := (escrows c)(i \<mapsto>
                     \<lparr>escrowId = i, jobId = j, employer = e, worker = Some w, amount = a,
                      state = Completed, employerConfirmed = True, workerConfirmed = True,
                      createdAt = tcr, lockedAt = Some tlk, completedAt = Some twk,
                      disputeRaisedAt = None\<rparr>),
                   escrowCount := Suc (escrowCount c)\<rparr>,
                [(w, a - computeFee a (feeBasisPoints c)),
                 (adminAddress c, computeFee a (feeBasisPoints c))])
       \<and> computeFee a (feeBasisPoints c) = a * feeBasisPoints c div 10000
       \<and> (a - computeFee a (feeBasisPoints c)) + computeFee a (feeBasisPoints c) = a"
proof -
  have fee: "computeFee a (feeBasisPoints c) \<le> a"
    using bps by (rule computeFee_le)
  have "run c [\<lparr>in_sender = creator, in_paid = pc, in_time = tcr,
                  in_op = CreateEscrow i j e wk a\<rparr>,
                \<lparr>in_sender = e, in_paid = pf, in_time = tfu, in_op = Fund i\<rparr>,
                \<lparr>in_sender = w, in_paid = pl, in_time = tlk, in_op = Lock i\<rparr>,
                \<lparr>in_sender = e, in_paid = pe, in_time = tem, in_op = Confirm i\<rparr>,
                \<lparr>in_sender = w, in_paid = pw, in_time = twk, in_op = Confirm i\<rparr>]
         = Inr (c\<lparr>escrows := (escrows c)(i \<mapsto>
                     \<lparr>escrowId = i, jobId = j, employer = e, worker = Some w, amount = a,
                      state = Completed, employerConfirmed = True, workerConfirmed = True,
                      createdAt = tcr, lockedAt = Some tlk, completedAt = Some twk,
                      disputeRaisedAt = None\<rparr>),
                   escrowCount := Suc (escrowCount c)\<rparr>,
                [(w, a - computeFee a (feeBasisPoints c)),
                 (adminAddress c, computeFee a (feeBasisPoints c))])"
    using fresh pos paid ne wk bps
    by (auto simp: handle_def createEscrow_def on_record_def andThen_def fund_def lock_def
        confirm_def releaseTransfers_def Let_def)
  with fee show ?thesis
    by (simp add: computeFee_def)
qed

theorem mutual_confirmation_witness:
  "run example_contract
     [\<lparr>in_sender = 10, in_paid = 0, in_time = 3,
        in_op = CreateEscrow 1 7 10 None 100000000000\<rparr>,
      \<lparr>in_sender = 10, in_paid = 100000000000, in_time = 4, in_op = Fund 1\<rparr>,
      \<lparr>in_sender = 20, in_paid = 0, in_time = 5, in_op = Lock 1\<rparr>,
      \<lparr>in_sender = 10, in_paid = 0, in_time = 6, in_op = Confirm 1\<rparr>,
      \<lparr>in_sender = 20, in_paid = 0, in_time = 8, in_op = Confirm 1\<rparr>]
   = Inr (example_store
            ((example_record Completed True True (Some 5))\<lparr>completedAt := Some 8\<rparr>),
          [(20, 97500000000), (1, 2500000000)])
   \<and> computeFee 100000000000 250 = 2500000000
   \<and> 97500000000 + computeFee 100000000000 250 = 100000000000"
  using mutual_confirmation_pays_amount_less_fee
      [where c = example_contract and i = 1 and a = 100000000000 and pf = 100000000000
         and w = 20 and e = 10 and wk = None and creator = 10 and pc = 0 and tcr = 3
         and j = 7 and tfu = 4 and pl = 0 and tlk = 5 and pe = 0 and tem = 6 and pw = 0
         and twk = 8]
  by (simp add: example_contract_def example_store_def example_record_def computeFee_def)

text \<open>
  C5. Whatever the state of a stored record, \<open>resolve\<close> from a sender other than the
  administrator fails with \<open>Unauthorized\<close>; the contract state, and with it the record,
  is as before and nothing is transferred.
\<close>

theorem resolve_by_non_admin_is_unauthorized:
  "escrows c i = Some r \<Longrightarrow> s \<noteq> adminAddress c \<Longrightarrow>
   handle c \<lparr>in_sender = s, in_paid = p, in_time = t, in_op = Resolve i b\<rparr> = Inl Unauthorized
   \<and> receive c \<lparr>in_sender = s, in_paid = p, in_time = t, in_op = Resolve i b\<rparr> =
       (c, [], Some Unauthorized)
   \<and> getRecord (fst (receive c \<lparr>in_sender = s, in_paid = p, in_time = t, in_op = Resolve i b\<rparr>)) i
       = Some r"
  by (simp add: receive_def handle_def on_record_def resolve_def andThen_def getRecord_def)

theorem resolve_by_non_admin_witness:
  "receive (example_store (example_record Disputed False False (Some 5)))
      \<lparr>in_sender = 10, in_paid = 0, in_time = 9, in_op = Resolve 1 False\<rparr> =
     (example_store (example_record Disputed False False (Some 5)), [], Some Unauthorized)
   \<and> receive (example_store (example_record Completed True True (Some 5)))
      \<lparr>in_sender = 99, in_paid = 0, in_time = 9, in_op = Resolve 1 True\<rparr> =
     (example_store (example_record Completed True True (Some 5)), [], Some Unauthorized)"
  using resolve_by_non_admin_is_unauthorized
      [where c = "example_store (example_record Disputed False False (Some 5))" and i = 1
         and r = "example_record Disputed False False (Some 5)" and s = 10 and p = 0
         and t = 9 and b = False]
    resolve_by_non_admin_is_unauthorized
      [where c = "example_store (example_record Completed True True (Some 5))" and i = 1
         and r = "example_record Completed True True (Some 5)" and s = 99 and p = 0
         and t = 9 and b = True]
  by (simp add: example_store_def example_contract_def)










text \<open>
  The administrator's \<open>resolve\<close> of a disputed record in the employer's favour returns
  the full amount to the employer, charges no fee and makes the record \<open>Refunded\<close>.
\<close>

lemma resolve_refunds_employer:
  "state r = Disputed \<Longrightarrow>
   resolve admin bps admin t False r =
     Inr (r\<lparr>state := Refunded, completedAt := Some t\<rparr>, [(employer r, amount r)])"
  by (simp add: resolve_def andThen_def refundTransfers_def)

text \<open>
  A \<open>lock\<close> on a record that is already \<open>Locked\<close> always fails. With the authorization
  guard first, the error is \<open>Unauthorized\<close> for the employer and for any sender other
  than the recorded worker, and \<open>InvalidState\<close> for the recorded worker.
\<close>

lemma lock_on_Locked_record:
  "state r = Locked \<Longrightarrow> worker r = Some w \<Longrightarrow>
   lock admin s t r = Inl (if s \<noteq> employer r \<and> s = w then InvalidState else Unauthorized)"
  by (auto simp: lock_def andThen_def)

end
